theory Spec2Isabelle
  imports Main "HOL-Library.Sublist" "HOL-Library.AList"
begin

section \<open>JavaScript strings\<close>

text \<open>
  A JavaScript string is a sequence of UTF-16 code units. Request targets, header names
  and paths are kept as lists of code units, so that the result of
  \<open>decodeURIComponent\<close> (which can produce code units above 255) has the same type as
  its argument. \<open>js\<close> reads an ASCII literal.
\<close>

type_synonym jsstring = "nat list"

definition js :: "string \<Rightarrow> jsstring" where
  "js s = map of_char s"

definition startsWith :: "jsstring \<Rightarrow> jsstring \<Rightarrow> bool" where
  \<comment> \<open>\<open>s.startsWith(p)\<close>\<close>
  "startsWith s p = prefix p s"

definition endsWith :: "jsstring \<Rightarrow> jsstring \<Rightarrow> bool" where
  \<comment> \<open>\<open>s.endsWith(x)\<close>\<close>
  "endsWith s x = prefix (rev x) (rev s)"

definition slice_0_m1 :: "jsstring \<Rightarrow> jsstring" where
  \<comment> \<open>\<open>s.slice(0, -1)\<close>: everything but the last code unit; the empty string stays empty\<close>
  "slice_0_m1 s = take (length s - 1) s"

fun includes_js :: "jsstring \<Rightarrow> jsstring \<Rightarrow> bool" where
  \<comment> \<open>\<open>s.includes(x)\<close>: \<open>x\<close> occurs in \<open>s\<close> as a contiguous run\<close>
  "includes_js [] x = (x = [])"
| "includes_js (c # cs) x = (prefix x (c # cs) \<or> includes_js cs x)"

definition indexOf :: "jsstring \<Rightarrow> nat \<Rightarrow> nat \<Rightarrow> nat option" where
  \<comment> \<open>\<open>s.indexOf(c, from)\<close> for a one-unit search string; \<open>None\<close> is the result -1\<close>
  "indexOf s c from =
     (if c \<in> set (drop from s)
      then Some (from + length (takeWhile (\<lambda>x. x \<noteq> c) (drop from s)))
      else None)"

definition substring :: "jsstring \<Rightarrow> nat \<Rightarrow> nat \<Rightarrow> jsstring" where
  \<comment> \<open>\<open>s.substring(a, b)\<close>: both indices clamped to the length, swapped when \<open>a > b\<close>\<close>
  "substring s a b =
     (let a' = min a (length s); b' = min b (length s)
      in take (max a' b' - min a' b') (drop (min a' b') s))"

definition substringFrom :: "jsstring \<Rightarrow> nat \<Rightarrow> jsstring" where
  \<comment> \<open>\<open>s.substring(a)\<close>\<close>
  "substringFrom s a = drop a s"

definition split_first :: "jsstring \<Rightarrow> nat \<Rightarrow> jsstring" where
  \<comment> \<open>\<open>s.split(c)[0]\<close>: the part of \<open>s\<close> before the first \<open>c\<close>\<close>
  "split_first s c = takeWhile (\<lambda>x. x \<noteq> c) s"

fun digits :: "nat \<Rightarrow> jsstring" where
  \<comment> \<open>a non-negative integer inside a template literal: its decimal digits\<close>
  "digits n = (if n < 10 then [48 + n] else digits (n div 10) @ [48 + n mod 10])"

declare digits.simps [simp del]

section \<open>decodeURIComponent\<close>

text \<open>
  The built-in the dispatcher calls on the raw path, after the \<open>Decode\<close> operation of
  ECMAScript: a \<open>%\<close> must be followed by two hexadecimal digits; an octet below 128 is
  the code unit itself; a larger octet leads a UTF-8 sequence of two to four octets, each
  continuation written as another \<open>%XX\<close>, which must encode a Unicode code point in its
  shortest form. \<open>None\<close> is the \<open>URIError\<close> the built-in throws.
\<close>

definition hexDigit :: "nat \<Rightarrow> nat option" where
  "hexDigit c =
     (if 48 \<le> c \<and> c \<le> 57 then Some (c - 48)
      else if 65 \<le> c \<and> c \<le> 70 then Some (c - 55)
      else if 97 \<le> c \<and> c \<le> 102 then Some (c - 87)
      else None)"

fun hexOctet :: "jsstring \<Rightarrow> nat option" where
  \<comment> \<open>the value of the two code units that follow a \<open>%\<close>\<close>
  "hexOctet (a # b # rest) =
     (case hexDigit a of
        None \<Rightarrow> None
      | Some hi \<Rightarrow> (case hexDigit b of None \<Rightarrow> None | Some lo \<Rightarrow> Some (16 * hi + lo)))"
| "hexOctet _ = None"

definition leadingOnes :: "nat \<Rightarrow> nat" where
  \<comment> \<open>the number of leading 1 bits of an octet; every count above 4 is reported as 5\<close>
  "leadingOnes b =
     (if b < 128 then 0 else if b < 192 then 1 else if b < 224 then 2
      else if b < 240 then 3 else if b < 248 then 4 else 5)"

fun continuation :: "nat \<Rightarrow> jsstring \<Rightarrow> nat list option" where
  \<comment> \<open>reads \<open>m\<close> further escapes \<open>%XX\<close> from the front of the string\<close>
  "continuation 0 s = Some []"
| "continuation (Suc m) s =
     (case s of
        [] \<Rightarrow> None
      | p # t \<Rightarrow>
          if p \<noteq> 37 then None
          else (case hexOctet t of
                  None \<Rightarrow> None
                | Some b \<Rightarrow> map_option (Cons b) (continuation m (drop 2 t))))"

definition utf8CodePoint :: "nat \<Rightarrow> nat list \<Rightarrow> nat option" where
  \<comment> \<open>the code point of a lead octet and its continuation octets, when they are valid UTF-8\<close>
  "utf8CodePoint b bs =
     (let n = Suc (length bs);
          v = foldl (\<lambda>acc c. acc * 64 + (c - 128))
                (b - (if n = 2 then 192 else if n = 3 then 224 else 240)) bs
      in if list_all (\<lambda>c. 128 \<le> c \<and> c < 192) bs
            \<and> (if n = 2 then 128 else if n = 3 then 2048 else 65536) \<le> v
            \<and> v \<le> 1114111 \<and> (v < 55296 \<or> 57343 < v)
         then Some v else None)"

definition utf16 :: "nat \<Rightarrow> jsstring" where
  \<comment> \<open>the code units of a code point: itself, or a surrogate pair\<close>
  "utf16 v =
     (if v < 65536 then [v]
      else [55296 + (v - 65536) div 1024, 56320 + (v - 65536) mod 1024])"

fun decodeURIComponent :: "jsstring \<Rightarrow> jsstring option" where
  "decodeURIComponent [] = Some []"
| "decodeURIComponent (c # cs) =
     (if c \<noteq> 37 then map_option (Cons c) (decodeURIComponent cs)
      else (case hexOctet cs of
              None \<Rightarrow> None
            | Some b \<Rightarrow>
                let n = leadingOnes b in
                if n = 0 then map_option (Cons b) (decodeURIComponent (drop 2 cs))
                else if n = 1 \<or> n > 4 then None
                else (case continuation (n - 1) (drop 2 cs) of
                        None \<Rightarrow> None
                      | Some bs \<Rightarrow>
                          (case utf8CodePoint b bs of
                             None \<Rightarrow> None
                           | Some v \<Rightarrow>
                               map_option (\<lambda>r. utf16 v @ r)
                                 (decodeURIComponent (drop (2 + 3 * (n - 1)) cs))))))"

section \<open>config.ts: the path allowlist\<close>

fun matchPatterns :: "jsstring \<Rightarrow> jsstring list \<Rightarrow> bool" where
  \<comment> \<open>the \<open>for (const pattern of allowedPaths)\<close> loop of \<open>isPathAllowed\<close>\<close>
  "matchPatterns path [] = False"
| "matchPatterns path (pattern # rest) =
     (if endsWith pattern (js ''*'')
      then (if startsWith path (slice_0_m1 pattern) then True else matchPatterns path rest)
      else (if path = pattern then True else matchPatterns path rest))"

definition isPathAllowed :: "jsstring \<Rightarrow> jsstring list option \<Rightarrow> bool" where
  \<comment> \<open>\<open>allowedPaths\<close> is optional: \<open>None\<close> is \<open>undefined\<close>\<close>
  "isPathAllowed path allowedPaths =
     (case allowedPaths of
        None \<Rightarrow> True
      | Some ps \<Rightarrow> if length ps = 0 then True else matchPatterns path ps)"

section \<open>audit.ts: the audit log\<close>

record AuditEntry =
  ts :: int
  backend :: jsstring
  httpMethod :: jsstring
  path :: jsstring
  status :: "nat option"
  durationMs :: "int option"
  allowed :: bool
  reason :: "jsstring option"

text \<open>
  The log holds a file descriptor once opened and the lines written so far, one entry
  per line. The clock is read as milliseconds; \<open>ts\<close> keeps that reading.
\<close>

record AuditLog =
  fd :: "nat option"
  lines :: "AuditEntry list"

definition write_entry :: "AuditLog \<Rightarrow> AuditEntry \<Rightarrow> AuditLog" where
  "write_entry log entry = (if fd log = None then log else log\<lparr>lines := lines log @ [entry]\<rparr>)"

section \<open>proxy.ts: data\<close>

text \<open>
  A header value is a string or a list of strings. A JavaScript object is the list of
  its own entries in insertion order; \<open>obj[key] = value\<close> replaces the value of a key
  that is present and appends the entry otherwise (\<open>AList.update\<close>), and a lookup is
  \<open>map_of\<close>. A \<open>Buffer\<close> is a list of bytes.
\<close>

datatype hval = Str jsstring | StrList "jsstring list"

type_synonym headers = "(jsstring \<times> hval) list"

type_synonym Buffer = "char list"

datatype json =
  JString jsstring
| JNumber int
| JArray "json list"
| JObject "(jsstring \<times> json) list"

text \<open>
  A backend of the configuration. \<open>maxBodyBytes\<close> is the optional limit that
  \<open>forward\<close> reads from the backend. \<open>config.backends[name]\<close> is a lookup among
  the configured entries.
\<close>

record BackendConfig =
  target :: jsstring
  headers :: "(jsstring \<times> jsstring) list"
  allowedPaths :: "jsstring list option"
  maxBodyBytes :: "nat option"

record AgentAuthConfig =
  port :: nat
  bind :: jsstring
  backends :: "(jsstring \<times> BackendConfig) list"

text \<open>The inbound request: \<open>req.url\<close>, \<open>req.method\<close> and \<open>req.headers\<close>.\<close>

record IncomingMessage =
  url :: "jsstring option"
  reqMethod :: "jsstring option"
  reqHeaders :: headers

text \<open>The upstream response handed to the callback of \<open>request\<close>.\<close>

record ProxyRes =
  statusCode :: "nat option"
  resHeaders :: headers
  resBody :: "Buffer list"

text \<open>
  What is written to the client: the status and headers of \<open>res.writeHead\<close> and the
  body, either the value given to \<open>JSON.stringify\<close> for \<open>res.end\<close> or the upstream
  body piped through.
\<close>

datatype body = Json json | Piped "Buffer list"

record ServerResponse =
  writtenStatus :: nat
  writtenHeaders :: headers
  writtenBody :: body

text \<open>
  What one call of \<open>forward\<close> fixes: its arguments, the upstream request it opens
  (target origin, path, method and headers), the start time and the body limit.
\<close>

record Forward =
  backendName :: jsstring
  targetPath :: jsstring
  fwdMethod :: jsstring
  upstreamTarget :: jsstring
  upstreamHeaders :: headers
  startTime :: int
  maxBody :: nat

text \<open>
  The state of one exchange: the proxy's audit log (\<open>None\<close> when the proxy was made
  without one), the responses written to \<open>res\<close>, one element for each
  \<open>res.writeHead\<close> (\<open>res.headersSent\<close> holds once the list is non-empty, and a
  second element stands for a write that the runtime would refuse), the upstream request
  if \<open>forward\<close> opened one, the byte counter, what was written to the upstream request,
  and whether each side was ended or destroyed.
\<close>

record Exchange =
  auditLog :: "AuditLog option"
  sent :: "ServerResponse list"
  forwarded :: "Forward option"
  received :: nat
  proxyWritten :: "Buffer list"
  proxyEnded :: bool
  proxyDestroyed :: bool
  reqDestroyed :: bool

definition newExchange :: "AuditLog option \<Rightarrow> Exchange" where
  "newExchange log =
     \<lparr>auditLog = log, sent = [], forwarded = None, received = 0, proxyWritten = [],
      proxyEnded = False, proxyDestroyed = False, reqDestroyed = False\<rparr>"

definition DEFAULT_MAX_BODY_BYTES :: nat where
  "DEFAULT_MAX_BODY_BYTES = 10 * 1024 * 1024"

definition ALLOWED_RESPONSE_HEADERS :: "jsstring list" where
  "ALLOWED_RESPONSE_HEADERS =
     [js ''content-type'', js ''content-length'', js ''content-encoding'',
      js ''transfer-encoding'', js ''cache-control'', js ''date'', js ''etag'', js ''vary'']"

definition toLowerCase :: "jsstring \<Rightarrow> jsstring" where
  \<comment> \<open>on header names, which are ASCII tokens: A to Z become a to z\<close>
  "toLowerCase s = map (\<lambda>c. if 65 \<le> c \<and> c \<le> 90 then c + 32 else c) s"

section \<open>proxy.ts: the dispatcher\<close>

definition audit :: "AuditEntry \<Rightarrow> Exchange \<Rightarrow> Exchange" where
  "audit entry x =
     (case auditLog x of
        None \<Rightarrow> x
      | Some log \<Rightarrow> x\<lparr>auditLog := Some (write_entry log entry)\<rparr>)"

definition headersSent :: "Exchange \<Rightarrow> bool" where
  "headersSent x = (sent x \<noteq> [])"

definition respond :: "nat \<Rightarrow> headers \<Rightarrow> body \<Rightarrow> Exchange \<Rightarrow> Exchange" where
  \<comment> \<open>\<open>res.writeHead(status, headers)\<close> followed by \<open>res.end(body)\<close> or a pipe into \<open>res\<close>\<close>
  "respond st hs b x =
     x\<lparr>sent := sent x @ [\<lparr>writtenStatus = st, writtenHeaders = hs, writtenBody = b\<rparr>]\<rparr>"

definition jsonContentType :: headers where
  "jsonContentType = [(js ''content-type'', Str (js ''application/json''))]"

definition orElse :: "jsstring option \<Rightarrow> jsstring \<Rightarrow> jsstring" where
  \<comment> \<open>\<open>a || b\<close> on an optional string: \<open>undefined\<close> and the empty string give \<open>b\<close>\<close>
  "orElse a b = (case a of None \<Rightarrow> b | Some s \<Rightarrow> if s = [] then b else s)"

definition deny ::
  "int \<Rightarrow> jsstring \<Rightarrow> jsstring \<Rightarrow> jsstring \<Rightarrow> jsstring \<Rightarrow> jsstring option \<Rightarrow> Exchange \<Rightarrow> Exchange"
where
  "deny now code message meth pth bk x =
     respond 403 jsonContentType
       (Json (JObject [(js ''error'', JString code), (js ''message'', JString message)]))
       (audit \<lparr>ts = now, backend = orElse bk (js ''none''), httpMethod = meth, path = pth,
                status = Some 403, durationMs = None, allowed = False,
                reason = Some message\<rparr> x)"

definition copyHeaders :: "headers \<Rightarrow> headers" where
  \<comment> \<open>the first loop of \<open>forward\<close>: every inbound header but \<open>host\<close> and \<open>connection\<close>\<close>
  "copyHeaders hs =
     fold (\<lambda>(key, value) acc.
             if key \<noteq> js ''host'' \<and> key \<noteq> js ''connection''
             then AList.update key value acc else acc) hs []"

definition injectHeaders :: "(jsstring \<times> jsstring) list \<Rightarrow> headers \<Rightarrow> headers" where
  \<comment> \<open>the second loop of \<open>forward\<close>: the backend's headers, written over what is there\<close>
  "injectHeaders injected hs = fold (\<lambda>(key, value) acc. AList.update key (Str value) acc) injected hs"

text \<open>
  \<open>forward\<close> opens the upstream request for \<open>new URL(targetPath, backend.target)\<close>,
  kept here as the target and the path, and registers the listeners below. Its
  \<open>targetPath\<close> parameter receives the \<open>fullTargetPath\<close> of \<open>handleRequest\<close>.
\<close>

definition forward ::
  "int \<Rightarrow> IncomingMessage \<Rightarrow> BackendConfig \<Rightarrow> jsstring \<Rightarrow> jsstring \<Rightarrow> jsstring \<Rightarrow> Exchange \<Rightarrow> Exchange"
where
  "forward now req bk name tpath meth x =
     x\<lparr>forwarded :=
          Some \<lparr>backendName = name, targetPath = tpath, fwdMethod = meth,
                upstreamTarget = target bk,
                upstreamHeaders = injectHeaders (headers bk) (copyHeaders (reqHeaders req)),
                startTime = now,
                maxBody = (case maxBodyBytes bk of
                             None \<Rightarrow> DEFAULT_MAX_BODY_BYTES
                           | Some m \<Rightarrow> m)\<rparr>,
        received := 0\<rparr>"

definition healthBody :: "AgentAuthConfig \<Rightarrow> json" where
  "healthBody config =
     JObject [(js ''status'', JString (js ''ok'')),
              (js ''backends'', JArray (map (\<lambda>(name, bk). JString name) (backends config))),
              (js ''port'', JNumber (int (port config)))]"

definition handleRequest ::
  "AgentAuthConfig \<Rightarrow> int \<Rightarrow> IncomingMessage \<Rightarrow> Exchange \<Rightarrow> Exchange"
where
  "handleRequest config now req x =
     (let u = orElse (url req) (js ''/'');
          meth = orElse (reqMethod req) (js ''GET'')
      in if u = js ''/agentauth/health''
         then respond 200 jsonContentType (Json (healthBody config)) x
         else
           (case indexOf u 47 1 of
              None \<Rightarrow>
                deny now (js ''invalid_path'') (js ''No backend in path: '' @ u) meth u None x
            | Some slashIdx \<Rightarrow>
                let name = substring u 1 slashIdx;
                    rawPath = substringFrom u slashIdx
                in (case decodeURIComponent (split_first rawPath 63) of
                      None \<Rightarrow>
                        deny now (js ''invalid_path'')
                          (js ''Malformed URL encoding: '' @ rawPath) meth u None x
                    | Some tpath \<Rightarrow>
                        if includes_js tpath (js ''..'')
                        then deny now (js ''path_traversal'')
                               (js ''Path traversal rejected: '' @ tpath) meth u None x
                        else
                          let fullTargetPath =
                                (case indexOf rawPath 63 0 of
                                   None \<Rightarrow> tpath
                                 | Some qIdx \<Rightarrow> tpath @ substringFrom rawPath qIdx)
                          in (case map_of (backends config) name of
                                None \<Rightarrow>
                                  deny now (js ''unknown_backend'')
                                    (js ''Unknown backend: '' @ name) meth u None x
                              | Some bk \<Rightarrow>
                                  if \<not> isPathAllowed tpath (allowedPaths bk)
                                  then deny now (js ''path_denied'')
                                         (js ''Path not allowed: '' @ tpath) meth u (Some name) x
                                  else forward now req bk name fullTargetPath meth x))))"

subsection \<open>The listeners that \<open>forward\<close> registers\<close>

definition safeHeaders :: "headers \<Rightarrow> headers" where
  "safeHeaders hs =
     fold (\<lambda>(key, value) acc.
             if toLowerCase key \<in> set ALLOWED_RESPONSE_HEADERS
             then AList.update key value acc else acc) hs []"

definition onResponse :: "int \<Rightarrow> ProxyRes \<Rightarrow> Forward \<Rightarrow> Exchange \<Rightarrow> Exchange" where
  \<comment> \<open>the callback of \<open>request\<close>\<close>
  "onResponse now proxyRes f x =
     respond (case statusCode proxyRes of None \<Rightarrow> 502 | Some c \<Rightarrow> if c = 0 then 502 else c)
       (safeHeaders (resHeaders proxyRes)) (Piped (resBody proxyRes))
       (audit \<lparr>ts = now, backend = backendName f, httpMethod = fwdMethod f, path = targetPath f,
                status = statusCode proxyRes, durationMs = Some (now - startTime f),
                allowed = True, reason = None\<rparr> x)"

definition upstreamUnavailable :: json where
  "upstreamUnavailable =
     JObject [(js ''error'', JString (js ''upstream_error'')),
              (js ''message'', JString (js ''upstream unavailable''))]"

definition onProxyError :: "int \<Rightarrow> jsstring \<Rightarrow> Forward \<Rightarrow> Exchange \<Rightarrow> Exchange" where
  \<comment> \<open>\<open>proxyReq.on('error')\<close>; the second argument is \<open>err.message\<close>\<close>
  "onProxyError now message f x =
     (let x' = audit \<lparr>ts = now, backend = backendName f, httpMethod = fwdMethod f,
                       path = targetPath f, status = Some 502,
                       durationMs = Some (now - startTime f), allowed = True,
                       reason = Some (js ''upstream error: '' @ message)\<rparr> x
      in if \<not> headersSent x' then respond 502 jsonContentType (Json upstreamUnavailable) x'
         else x')"

definition bodyTooLarge :: "nat \<Rightarrow> json" where
  "bodyTooLarge m =
     JObject [(js ''error'', JString (js ''body_too_large'')),
              (js ''message'',
               JString (js ''Request body exceeds '' @ digits m @ js '' byte limit''))]"

definition onData :: "int \<Rightarrow> Buffer \<Rightarrow> Forward \<Rightarrow> Exchange \<Rightarrow> Exchange" where
  \<comment> \<open>\<open>req.on('data')\<close>\<close>
  "onData now chunk f x =
     (let x1 = x\<lparr>received := received x + length chunk\<rparr>
      in if received x1 > maxBody f
         then
           (let x2 = x1\<lparr>reqDestroyed := True, proxyDestroyed := True\<rparr>;
                x3 = audit \<lparr>ts = now, backend = backendName f, httpMethod = fwdMethod f,
                              path = targetPath f, status = Some 413, durationMs = None,
                              allowed = False,
                              reason = Some (js ''body exceeded '' @ digits (maxBody f)
                                              @ js '' bytes'')\<rparr> x2
            in if \<not> headersSent x3
               then respond 413 jsonContentType (Json (bodyTooLarge (maxBody f))) x3
               else x3)
         else x1\<lparr>proxyWritten := proxyWritten x1 @ [chunk]\<rparr>)"

definition onEnd :: "Exchange \<Rightarrow> Exchange" where
  \<comment> \<open>\<open>req.on('end')\<close>\<close>
  "onEnd x = x\<lparr>proxyEnded := True\<rparr>"

definition onReqError :: "Exchange \<Rightarrow> Exchange" where
  \<comment> \<open>\<open>req.on('error')\<close>\<close>
  "onReqError x = x\<lparr>proxyDestroyed := True\<rparr>"

subsection \<open>Events\<close>

text \<open>
  After \<open>handleRequest\<close> returns, the exchange goes on through the events of the two
  streams, each with the clock reading at its delivery. Listeners exist only once
  \<open>forward\<close> ran. A destroyed inbound request emits no further \<open>data\<close> or \<open>end\<close>, and
  a destroyed upstream request delivers no response.
\<close>

datatype Event =
  ReqData int Buffer
| ReqEnd
| ReqError
| UpstreamResponse int ProxyRes
| UpstreamError int jsstring

definition deliver :: "Event \<Rightarrow> Exchange \<Rightarrow> Exchange" where
  "deliver ev x =
     (case forwarded x of
        None \<Rightarrow> x
      | Some f \<Rightarrow>
          (case ev of
             ReqData now chunk \<Rightarrow> if reqDestroyed x then x else onData now chunk f x
           | ReqEnd \<Rightarrow> if reqDestroyed x then x else onEnd x
           | ReqError \<Rightarrow> onReqError x
           | UpstreamResponse now proxyRes \<Rightarrow>
               if proxyDestroyed x then x else onResponse now proxyRes f x
           | UpstreamError now message \<Rightarrow> onProxyError now message f x))"

definition run :: "Event list \<Rightarrow> Exchange \<Rightarrow> Exchange" where
  "run evs x = fold deliver evs x"




subsection \<open>Comparing runs\<close>

text \<open>
  Two events are the same but for the upstream error detail when they are equal, or both
  are upstream errors delivered at the same time with any two messages.
  \<open>withoutAudit\<close> is an exchange with its audit log taken away: what the client and
  the upstream can observe.
\<close>

fun sameButDetail :: "Event \<Rightarrow> Event \<Rightarrow> bool" where
  "sameButDetail (UpstreamError t m) (UpstreamError t' m') = (t = t')"
| "sameButDetail a b = (a = b)"

definition withoutAudit :: "Exchange \<Rightarrow> Exchange" where
  "withoutAudit x = x\<lparr>auditLog := None\<rparr>"

section \<open>A sample configuration\<close>

text \<open>
  One backend \<open>myapi\<close> with two injected headers, no path restriction and a body limit
  of four bytes; a request that carries its own \<open>x-api-key\<close>; an opened audit log.
\<close>

definition exampleBackend :: BackendConfig where
  "exampleBackend =
     \<lparr>target = js ''http://localhost:8080'',
      headers = [(js ''x-api-key'', js ''secret-key-123''), (js ''x-custom'', js ''injected'')],
      allowedPaths = None, maxBodyBytes = Some 4\<rparr>"

definition exampleConfig :: AgentAuthConfig where
  "exampleConfig = \<lparr>port = 9999, bind = js ''127.0.0.1'', backends = [(js ''myapi'', exampleBackend)]\<rparr>"

definition exampleRequest :: "string \<Rightarrow> IncomingMessage" where
  "exampleRequest u =
     \<lparr>url = Some (js u), reqMethod = Some (js ''POST''),
      reqHeaders = [(js ''host'', Str (js ''localhost:9999'')),
                    (js ''x-api-key'', Str (js ''spoofed'')),
                    (js ''accept'', Str (js ''*/*''))]\<rparr>"

definition exampleLog :: "AuditLog option" where
  "exampleLog = Some \<lparr>fd = Some 3, lines = []\<rparr>"

definition exampleResponse :: ProxyRes where
  "exampleResponse =
     \<lparr>statusCode = Some 200,
      resHeaders = [(js ''content-type'', Str (js ''application/json'')),
                    (js ''x-request-id'', Str (js ''req-7'')),
                    (js ''server'', Str (js ''upstream/1.0''))],
      resBody = [''ok'']\<rparr>"

definition exampleForward :: Forward where
  "exampleForward =
     \<lparr>backendName = js ''myapi'', targetPath = js ''/v1/test?x=1'', fwdMethod = js ''POST'',
      upstreamTarget = js ''http://localhost:8080'',
      upstreamHeaders = [(js ''x-api-key'', Str (js ''secret-key-123'')),
                         (js ''accept'', Str (js ''*/*'')),
                         (js ''x-custom'', Str (js ''injected''))],
      startTime = 0, maxBody = 4\<rparr>"

definition exampleExchange :: Exchange where
  "exampleExchange =
     handleRequest exampleConfig 0 (exampleRequest ''/myapi/v1/test?x=1'') (newExchange exampleLog)"

section \<open>Facts about the string operations\<close>

lemma js_star: "js ''*'' = [42]"
  by (simp add: js_def)

lemma endsWith_star_iff: "endsWith pat (js ''*'') \<longleftrightarrow> (\<exists>q. pat = q @ js ''*'')"
proof
  assume "endsWith pat (js ''*'')"
  then have "prefix [42] (rev pat)"
    by (simp add: endsWith_def js_star)
  then obtain r where "rev pat = 42 # r"
    by (auto simp: prefix_def)
  then have "pat = rev r @ [42]"
    by (metis rev.simps(2) rev_rev_ident)
  then show "\<exists>q. pat = q @ js ''*''"
    by (auto simp: js_star)
next
  assume "\<exists>q. pat = q @ js ''*''"
  then show "endsWith pat (js ''*'')"
    by (auto simp: endsWith_def js_star)
qed

lemma slice_0_m1_snoc: "slice_0_m1 (q @ [c]) = q"
  by (simp add: slice_0_m1_def)

lemma startsWith_iff: "startsWith s p \<longleftrightarrow> (\<exists>r. s = p @ r)"
  by (auto simp: startsWith_def prefix_def)

lemma matchPatterns_iff:
  "matchPatterns p L \<longleftrightarrow>
     (\<exists>pat \<in> set L. (\<exists>q. pat = q @ js ''*'' \<and> (\<exists>r. p = q @ r)) \<or> pat = p)"
proof (induction L)
  case Nil
  show ?case by simp
next
  case (Cons pat L)
  show ?case
  proof (cases "endsWith pat (js ''*'')")
    case True
    then obtain q where q: "pat = q @ js ''*''"
      by (auto simp: endsWith_star_iff)
    have sl: "slice_0_m1 pat = q"
      by (simp add: q js_star slice_0_m1_snoc)
    have "(\<exists>q'. pat = q' @ js ''*'' \<and> (\<exists>r. p = q' @ r)) \<or> pat = p \<longleftrightarrow> startsWith p q"
      by (auto simp: q js_star startsWith_iff)
    with True sl Cons.IH show ?thesis
      by auto
  next
    case False
    then have "\<not> (\<exists>q'. pat = q' @ js ''*'')"
      by (simp add: endsWith_star_iff)
    with False Cons.IH show ?thesis
      by auto
  qed
qed

section \<open>Facts about header objects\<close>





section \<open>Facts about the dispatcher\<close>






lemma auditLog_forward: "auditLog (forward now req bk name tpath meth x) = auditLog x"
  by (simp add: forward_def)




lemmas eval_defs =
  handleRequest_def exampleConfig_def exampleBackend_def exampleRequest_def exampleLog_def
  newExchange_def js_def orElse_def indexOf_def substring_def substringFrom_def
  split_first_def hexDigit_def leadingOnes_def isPathAllowed_def forward_def deny_def
  respond_def audit_def write_entry_def jsonContentType_def copyHeaders_def injectHeaders_def
  DEFAULT_MAX_BODY_BYTES_def Let_def



section \<open>Facts about runs\<close>

lemma exampleExchange_eq:
  "exampleExchange =
     \<lparr>auditLog = Some \<lparr>fd = Some 3, lines = []\<rparr>, sent = [], forwarded = Some exampleForward,
      received = 0, proxyWritten = [], proxyEnded = False, proxyDestroyed = False,
      reqDestroyed = False\<rparr>"
  by (simp add: exampleExchange_def exampleForward_def eval_defs)

lemma run_Nil: "run [] x = x"
  by (simp add: run_def)

lemma run_Cons: "run (ev # evs) x = run evs (deliver ev x)"
  by (simp add: run_def)


lemma auditLog_audit:
  "auditLog x = Some log \<Longrightarrow> fd log \<noteq> None \<Longrightarrow>
   auditLog (audit e x) = Some (log\<lparr>lines := lines log @ [e]\<rparr>)"
  by (simp add: audit_def write_entry_def)





lemma auditLog_onResponse:
  "auditLog x = Some log \<Longrightarrow> fd log \<noteq> None \<Longrightarrow>
   auditLog (onResponse now proxyRes f x) =
     Some (log\<lparr>lines := lines log @
       [\<lparr>ts = now, backend = backendName f, httpMethod = fwdMethod f, path = targetPath f,
         status = statusCode proxyRes, durationMs = Some (now - startTime f),
         allowed = True, reason = None\<rparr>]\<rparr>)"
  by (simp add: onResponse_def respond_def auditLog_audit)



lemma withoutAudit_audit: "withoutAudit (audit e x) = withoutAudit x"
  by (simp add: withoutAudit_def audit_def split: option.splits)

lemma withoutAudit_eq_iff:
  "withoutAudit x = withoutAudit y \<longleftrightarrow>
     sent x = sent y \<and> forwarded x = forwarded y \<and> received x = received y
     \<and> proxyWritten x = proxyWritten y \<and> proxyEnded x = proxyEnded y
     \<and> proxyDestroyed x = proxyDestroyed y \<and> reqDestroyed x = reqDestroyed y"
  by (cases x; cases y) (auto simp: withoutAudit_def)

lemma audit_fields:
  "forwarded (audit e x) = forwarded x" "received (audit e x) = received x"
  "proxyWritten (audit e x) = proxyWritten x" "proxyEnded (audit e x) = proxyEnded x"
  "proxyDestroyed (audit e x) = proxyDestroyed x" "reqDestroyed (audit e x) = reqDestroyed x"
  "sent (audit e x) = sent x"
  by (simp_all add: audit_def split: option.splits)

lemma headersSent_audit: "headersSent (audit e x) = headersSent x"
  by (simp add: headersSent_def audit_fields)

lemma withoutAudit_onProxyError:
  "withoutAudit x = withoutAudit y \<Longrightarrow>
   withoutAudit (onProxyError now m f x) = withoutAudit (onProxyError now m' f y)"
  by (simp add: withoutAudit_eq_iff onProxyError_def Let_def headersSent_audit headersSent_def
      respond_def audit_fields)

lemma withoutAudit_onResponse:
  "withoutAudit x = withoutAudit y \<Longrightarrow>
   withoutAudit (onResponse now r f x) = withoutAudit (onResponse now r f y)"
  by (simp add: withoutAudit_eq_iff onResponse_def respond_def audit_fields)

lemma withoutAudit_onData:
  "withoutAudit x = withoutAudit y \<Longrightarrow>
   withoutAudit (onData now c f x) = withoutAudit (onData now c f y)"
  by (simp add: withoutAudit_eq_iff onData_def Let_def headersSent_audit headersSent_def
      respond_def audit_fields)

lemma withoutAudit_deliver:
  assumes "sameButDetail a b" and "withoutAudit x = withoutAudit y"
  shows "withoutAudit (deliver a x) = withoutAudit (deliver b y)"
proof -
  from assms(2) have fw: "forwarded x = forwarded y" and rd: "reqDestroyed x = reqDestroyed y"
    and pd: "proxyDestroyed x = proxyDestroyed y"
    by (simp_all add: withoutAudit_eq_iff)
  show ?thesis
  proof (cases "forwarded y")
    case None
    with fw have "deliver a x = x" and "deliver b y = y"
      by (simp_all add: deliver_def)
    with assms(2) show ?thesis by simp
  next
    case (Some f)
    with fw have fx: "forwarded x = Some f" by simp
    show ?thesis
    proof (cases a)
      case (ReqData t c)
      with assms(1) have b: "b = ReqData t c" by simp
      have "withoutAudit (onData t c f x) = withoutAudit (onData t c f y)"
        by (rule withoutAudit_onData [OF assms(2)])
      with assms(2) show ?thesis
        unfolding ReqData b deliver_def fx Some rd by simp
    next
      case ReqEnd
      with assms(1) have b: "b = ReqEnd" by simp
      have "withoutAudit (onEnd x) = withoutAudit (onEnd y)"
        using assms(2) by (simp add: onEnd_def withoutAudit_eq_iff)
      with assms(2) show ?thesis
        unfolding ReqEnd b deliver_def fx Some rd by simp
    next
      case ReqError
      with assms(1) have b: "b = ReqError" by simp
      have "withoutAudit (onReqError x) = withoutAudit (onReqError y)"
        using assms(2) by (simp add: onReqError_def withoutAudit_eq_iff)
      then show ?thesis
        unfolding ReqError b deliver_def fx Some by simp
    next
      case (UpstreamResponse t r)
      with assms(1) have b: "b = UpstreamResponse t r" by simp
      have "withoutAudit (onResponse t r f x) = withoutAudit (onResponse t r f y)"
        by (rule withoutAudit_onResponse [OF assms(2)])
      with assms(2) show ?thesis
        unfolding UpstreamResponse b deliver_def fx Some pd by simp
    next
      case (UpstreamError t m)
      with assms(1) obtain m' where b: "b = UpstreamError t m'"
        by (cases b) auto
      have "withoutAudit (onProxyError t m f x) = withoutAudit (onProxyError t m' f y)"
        by (rule withoutAudit_onProxyError [OF assms(2)])
      then show ?thesis
        unfolding UpstreamError b deliver_def fx Some by simp
    qed
  qed
qed

lemma withoutAudit_run:
  "list_all2 sameButDetail evs evs' \<Longrightarrow> withoutAudit x = withoutAudit y \<Longrightarrow>
   withoutAudit (run evs x) = withoutAudit (run evs' y)"
proof (induction evs evs' arbitrary: x y rule: list_all2_induct)
  case Nil
  then show ?case by (simp add: run_def)
next
  case (Cons a as b bs)
  from Cons.hyps(1) Cons.prems have "withoutAudit (deliver a x) = withoutAudit (deliver b y)"
    by (rule withoutAudit_deliver)
  then have "withoutAudit (run as (deliver a x)) = withoutAudit (run bs (deliver b y))"
    by (rule Cons.IH)
  then show ?case by (simp add: run_def)
qed










section \<open>Credential headers\<close>



section \<open>Path traversal\<close>




section \<open>Upstream failures\<close>

text \<open>
  C3. When the upstream request fails while no response has been written (no upstream
  response headers have arrived), the client receives 502 with the JSON body of error
  \<open>upstream_error\<close> and the fixed message \<open>upstream unavailable\<close>; the error text goes
  to the \<open>reason\<close> of the audit entry. Two runs from the same exchange whose events
  differ only in the upstream error messages write the same responses, and agree on
  everything but the audit log.
\<close>

theorem upstream_error_sanitised:
  assumes "forwarded x = Some f" and "sent x = []"
    and "auditLog x = Some log" and "fd log \<noteq> None"
  shows "sent (deliver (UpstreamError now message) x) =
           [\<lparr>writtenStatus = 502, writtenHeaders = jsonContentType,
             writtenBody =
               Json (JObject [(js ''error'', JString (js ''upstream_error'')),
                              (js ''message'', JString (js ''upstream unavailable''))])\<rparr>]
    \<and> auditLog (deliver (UpstreamError now message) x) =
          Some (log\<lparr>lines := lines log @
                  [\<lparr>ts = now, backend = backendName f, httpMethod = fwdMethod f,
                    path = targetPath f, status = Some 502,
                    durationMs = Some (now - startTime f), allowed = True,
                    reason = Some (js ''upstream error: '' @ message)\<rparr>]\<rparr>)
    \<and> (\<forall>evs evs'. list_all2 sameButDetail evs evs' \<longrightarrow>
          sent (run evs x) = sent (run evs' x)
          \<and> withoutAudit (run evs x) = withoutAudit (run evs' x))"
proof (intro conjI allI impI)
  show "sent (deliver (UpstreamError now message) x) =
           [\<lparr>writtenStatus = 502, writtenHeaders = jsonContentType,
             writtenBody =
               Json (JObject [(js ''error'', JString (js ''upstream_error'')),
                              (js ''message'', JString (js ''upstream unavailable''))])\<rparr>]"
    using assms(1,2)
    by (simp add: deliver_def onProxyError_def Let_def headersSent_audit headersSent_def
        respond_def audit_fields upstreamUnavailable_def)
  show "auditLog (deliver (UpstreamError now message) x) =
          Some (log\<lparr>lines := lines log @
                  [\<lparr>ts = now, backend = backendName f, httpMethod = fwdMethod f,
                    path = targetPath f, status = Some 502,
                    durationMs = Some (now - startTime f), allowed = True,
                    reason = Some (js ''upstream error: '' @ message)\<rparr>]\<rparr>)"
    using assms
    by (simp add: deliver_def onProxyError_def Let_def headersSent_audit headersSent_def
        respond_def audit_def write_entry_def)
next
  fix evs evs'
  assume "list_all2 sameButDetail evs evs'"
  then have "withoutAudit (run evs x) = withoutAudit (run evs' x)"
    by (rule withoutAudit_run) simp
  then show "sent (run evs x) = sent (run evs' x)"
    by (simp add: withoutAudit_eq_iff)
next
  fix evs evs'
  assume "list_all2 sameButDetail evs evs'"
  then show "withoutAudit (run evs x) = withoutAudit (run evs' x)"
    by (rule withoutAudit_run) simp
qed

theorem upstream_error_sanitised_witness:
  "sent (run [UpstreamError 7 (js ''connect ECONNREFUSED 10.0.0.5:443'')] exampleExchange) =
     [\<lparr>writtenStatus = 502, writtenHeaders = jsonContentType,
       writtenBody =
         Json (JObject [(js ''error'', JString (js ''upstream_error'')),
                        (js ''message'', JString (js ''upstream unavailable''))])\<rparr>]
   \<and> sent (run [UpstreamError 7 (js ''connect ECONNREFUSED 10.0.0.5:443'')] exampleExchange) =
       sent (run [UpstreamError 7 (js ''getaddrinfo ENOTFOUND db.internal'')] exampleExchange)
   \<and> map_option (\<lambda>l. map reason (lines l))
         (auditLog (run [UpstreamError 7 (js ''connect ECONNREFUSED 10.0.0.5:443'')] exampleExchange)) =
       Some [Some (js ''upstream error: '' @ js ''connect ECONNREFUSED 10.0.0.5:443'')]"
proof -
  have f: "forwarded exampleExchange = Some exampleForward"
    and s: "sent exampleExchange = []"
    and a: "auditLog exampleExchange = Some \<lparr>fd = Some 3, lines = []\<rparr>"
    by (simp_all add: exampleExchange_eq)
  have o: "fd \<lparr>fd = Some 3, lines = []\<rparr> \<noteq> None" by simp
  note t = upstream_error_sanitised [OF f s a o, of 7 "js ''connect ECONNREFUSED 10.0.0.5:443''"]
  have l: "list_all2 sameButDetail [UpstreamError 7 (js ''connect ECONNREFUSED 10.0.0.5:443'')]
             [UpstreamError 7 (js ''getaddrinfo ENOTFOUND db.internal'')]"
    by simp
  from t have 1: "sent (run [UpstreamError 7 (js ''connect ECONNREFUSED 10.0.0.5:443'')] exampleExchange) =
     [\<lparr>writtenStatus = 502, writtenHeaders = jsonContentType,
       writtenBody =
         Json (JObject [(js ''error'', JString (js ''upstream_error'')),
                        (js ''message'', JString (js ''upstream unavailable''))])\<rparr>]"
    by (simp add: run_Cons run_Nil)
  from t l have 2: "sent (run [UpstreamError 7 (js ''connect ECONNREFUSED 10.0.0.5:443'')] exampleExchange) =
       sent (run [UpstreamError 7 (js ''getaddrinfo ENOTFOUND db.internal'')] exampleExchange)"
    by blast
  from t have 3: "map_option (\<lambda>l. map reason (lines l))
         (auditLog (run [UpstreamError 7 (js ''connect ECONNREFUSED 10.0.0.5:443'')] exampleExchange)) =
       Some [Some (js ''upstream error: '' @ js ''connect ECONNREFUSED 10.0.0.5:443'')]"
    by (simp add: run_Cons run_Nil)
  from 1 2 3 show ?thesis by blast
qed

section \<open>The request body limit\<close>




section \<open>The allowlist rule\<close>

text \<open>
  C5. For every decoded path \<open>p\<close> and pattern list \<open>L\<close>, the allowlist check passes
  exactly when \<open>L\<close> is empty, or some pattern of \<open>L\<close> ends with \<open>*\<close> and \<open>p\<close> starts
  with that pattern minus the \<open>*\<close>, or some pattern equals \<open>p\<close>. With
  \<open>L = ["/repos/foo/*"]\<close> the path \<open>/repos/foo/bar\<close> is allowed and \<open>/repos/food/bar\<close>
  is denied.
\<close>

theorem isPathAllowed_rule:
  "(isPathAllowed p (Some L) \<longleftrightarrow>
      L = [] \<or> (\<exists>pat \<in> set L. (\<exists>q. pat = q @ js ''*'' \<and> (\<exists>r. p = q @ r)) \<or> pat = p))
   \<and> isPathAllowed (js ''/repos/foo/bar'') (Some [js ''/repos/foo/*''])
   \<and> \<not> isPathAllowed (js ''/repos/food/bar'') (Some [js ''/repos/foo/*''])"
proof (intro conjI)
  show "isPathAllowed p (Some L) \<longleftrightarrow>
      L = [] \<or> (\<exists>pat \<in> set L. (\<exists>q. pat = q @ js ''*'' \<and> (\<exists>r. p = q @ r)) \<or> pat = p)"
    by (cases L) (simp_all add: isPathAllowed_def matchPatterns_iff del: matchPatterns.simps)
  show "isPathAllowed (js ''/repos/foo/bar'') (Some [js ''/repos/foo/*''])"
    by (simp add: isPathAllowed_def endsWith_def startsWith_def slice_0_m1_def js_def)
  show "\<not> isPathAllowed (js ''/repos/food/bar'') (Some [js ''/repos/foo/*''])"
    by (simp add: isPathAllowed_def endsWith_def startsWith_def slice_0_m1_def js_def)
qed

theorem isPathAllowed_rule_witness:
  "isPathAllowed (js ''/v1/messages'') (Some [js ''/v1/*'', js ''/v1/messages''])
   \<and> \<not> isPathAllowed (js ''/v1/messages/extra'') (Some [js ''/v1/messages''])"
proof -
  have a: "js ''/v1/messages'' = js ''/v1/'' @ js ''messages''"
    by (simp add: js_def)
  have b: "js ''/v1/*'' = js ''/v1/'' @ js ''*''"
    by (simp add: js_def)
  have "isPathAllowed (js ''/v1/messages'') (Some [js ''/v1/*'', js ''/v1/messages''])"
    using isPathAllowed_rule [of "js ''/v1/messages''" "[js ''/v1/*'', js ''/v1/messages'']"]
    by simp
  moreover have "\<not> isPathAllowed (js ''/v1/messages/extra'') (Some [js ''/v1/messages''])"
    using isPathAllowed_rule [of "js ''/v1/messages/extra''" "[js ''/v1/messages'']"]
    by (simp add: js_def)
  ultimately show ?thesis by simp
qed

section \<open>Response header allowlist\<close>



section \<open>Responses and audit entries per request\<close>




section \<open>Status and duration in audit entries\<close>




section \<open>The path in audit entries\<close>

text \<open>
  C9. The claim is that the \<open>path\<close> of every audit entry is the decoded path without
  its query string. Evaluated on the dispatcher: the entry of the forwarded request
  \<open>/myapi/v1/test?x=1\<close> has path \<open>/v1/test?x=1\<close>, query string included, and the
  entry of the denied request \<open>/myapi/a/%2e%2e/b?y=1\<close> has the raw request target as
  its path.
\<close>

theorem audit_path_as_logged:
  "map_option (\<lambda>l. map path (lines l))
     (auditLog (run [UpstreamResponse 5 exampleResponse]
        (handleRequest exampleConfig 0 (exampleRequest ''/myapi/v1/test?x=1'') (newExchange exampleLog)))) =
     Some [js ''/v1/test?x=1'']
   \<and> map_option (\<lambda>l. map path (lines l))
     (auditLog (handleRequest exampleConfig 0 (exampleRequest ''/myapi/a/%2e%2e/b?y=1'') (newExchange exampleLog))) =
     Some [js ''/myapi/a/%2e%2e/b?y=1'']"
proof -
  have e: "handleRequest exampleConfig 0 (exampleRequest ''/myapi/v1/test?x=1'') (newExchange exampleLog) = exampleExchange"
    by (simp add: exampleExchange_def)
  have 1: "map_option (\<lambda>l. map path (lines l))
     (auditLog (run [UpstreamResponse 5 exampleResponse] exampleExchange)) = Some [js ''/v1/test?x=1'']"
    by (simp add: exampleExchange_eq run_Cons run_Nil deliver_def auditLog_onResponse exampleForward_def)
  have 2: "map_option (\<lambda>l. map path (lines l))
     (auditLog (handleRequest exampleConfig 0 (exampleRequest ''/myapi/a/%2e%2e/b?y=1'') (newExchange exampleLog))) =
     Some [js ''/myapi/a/%2e%2e/b?y=1'']"
    by (simp add: eval_defs)
  from 1 2 show ?thesis unfolding e by simp
qed

section \<open>The health check\<close>



end
